theory Spec2Isabelle
  imports Complex_Main "HOL-Library.Sublist"
begin

section \<open>The task runner of \<open>src/main.py\<close>\<close>

text \<open>
  The program is one Python module: two response classes, two module-level
  variables (\<open>start_time\<close>, \<open>task_results\<close>), five request handlers, the
  startup and shutdown hooks, the work unit \<open>simulate_work\<close> and the startup
  hook \<open>auto_run_task\<close>.

  What the module does beyond computing values is made explicit here:
  \<^item> the two globals are the fields of a state record that every operation
    takes and returns;
  \<^item> every call of \<open>datetime.now()\<close> is an argument of the operation that makes
    it (the clock is an input, nothing is assumed about it);
  \<^item> logging, \<open>asyncio.sleep\<close> and \<open>os.kill\<close> are events appended, in program
    order, to a trace kept in the state;
  \<^item> a raised exception is the \<open>Inl\<close> of a sum; \<open>sys.exit(1)\<close> raises
    \<open>SystemExit(1)\<close>.
\<close>

subsection \<open>Time\<close>

text \<open>
  A \<open>datetime\<close> is a count of microseconds on the (naive, local) time line, a
  \<open>timedelta\<close> the difference of two. \<open>timedelta.total_seconds()\<close> divides the
  microseconds by \<open>10\<^sup>6\<close>; the quotient is kept exact (a real number) instead
  of rounded to a double.
\<close>

type_synonym datetime = int
type_synonym timedelta = int

definition total_seconds :: "timedelta \<Rightarrow> real" where
  "total_seconds d = real_of_int d / 1000000"

subsection \<open>\<open>str\<close> of a non-negative integer\<close>

definition digit :: "nat \<Rightarrow> char" where
  "digit d = ''0123456789'' ! d"

fun str_nat :: "nat \<Rightarrow> string" where
  "str_nat n = (if n < 10 then [digit n] else str_nat (n div 10) @ [digit (n mod 10)])"

declare str_nat.simps [simp del]

text \<open>
  Reading the digits back. This is not in the source: it is the inverse of the
  format of a task id, used to speak of the number inside an id.
\<close>

definition digit_value :: "char \<Rightarrow> nat" where
  "digit_value c = of_char c - 48"

definition nat_of_str :: "string \<Rightarrow> nat" where
  "nat_of_str cs = foldl (\<lambda>a c. 10 * a + digit_value c) 0 cs"

definition task_number :: "string \<Rightarrow> nat" where
  "task_number tid = nat_of_str (drop 5 tid)"

subsection \<open>The pydantic models\<close>

record HealthResponse =
  status :: string
  timestamp :: datetime
  uptime_seconds :: real

record TaskResult =
  task_id :: string
  status :: string
  message :: string
  timestamp :: datetime
  duration_seconds :: real

subsection \<open>Exceptions, events, state\<close>

datatype exc =
    HTTPException (status_code: nat) (detail: string)
  | SystemExit int

text \<open>
  A log message is the text of its f-string. A field that is not a string
  (a datetime, a float printed with \<open>:.2f\<close>, an exception under \<open>str\<close>) is kept
  as the value formatted, not rendered.
\<close>

datatype piece =
    Txt string
  | Fmt_datetime datetime
  | Fmt_2f real
  | Fmt_exc exc

datatype level = INFO | ERROR

datatype event =
    Log level "piece list"
  | Sleep nat
  | Kill_getpid_SIGTERM

record app_state =
  start_time :: datetime
  task_results :: "TaskResult list"
  events :: "event list"

text \<open>Module initialisation: lines 49 and 50.\<close>

definition init :: "datetime \<Rightarrow> app_state" where
  "init now = \<lparr>start_time = now, task_results = [], events = []\<rparr>"

definition emit :: "event list \<Rightarrow> app_state \<Rightarrow> app_state" where
  "emit evs s = s\<lparr>events := events s @ evs\<rparr>"

definition logger_info :: "piece list \<Rightarrow> app_state \<Rightarrow> app_state" where
  "logger_info m = emit [Log INFO m]"

definition logger_error :: "piece list \<Rightarrow> app_state \<Rightarrow> app_state" where
  "logger_error m = emit [Log ERROR m]"

definition asyncio_sleep :: "nat \<Rightarrow> app_state \<Rightarrow> app_state" where
  "asyncio_sleep d = emit [Sleep d]"

definition os_kill_getpid_SIGTERM :: "app_state \<Rightarrow> app_state" where
  "os_kill_getpid_SIGTERM = emit [Kill_getpid_SIGTERM]"

subsection \<open>The work unit\<close>

text \<open>
  \<open>run_main_task\<close> awaits the work unit inside \<open>try ... except Exception as e\<close>
  and uses nothing of it but whether it returned or raised, and \<open>str(e)\<close>. A
  work unit is therefore its trace of events and its outcome; \<open>Raises e\<close> is an
  \<open>Exception\<close> whose \<open>str\<close> is \<open>e\<close>. The work unit does not touch the two
  globals. An exception that is not an \<open>Exception\<close> (a cancellation, an
  interpreter exit) is not caught by the handler and is not an outcome here:
  such a run is abandoned with its process.
\<close>

datatype outcome = Returns | Raises string

record work_unit =
  effects :: "event list"
  outcome :: outcome

definition tasks :: "(string \<times> nat) list" where
  "tasks =
     [(''Database cleanup'', 2),
      (''Data processing'', 5),
      (''Report generation'', 3),
      (''Email notifications'', 1),
      (''File maintenance'', 2)]"

definition simulate_work :: work_unit where
  "simulate_work =
     \<lparr>effects =
        [Log INFO [Txt ''Performing automation work...'']]
        @ concat (map (\<lambda>(task_name, duration).
                    [Log INFO [Txt (''Executing: '' @ task_name)],
                     Sleep duration,
                     Log INFO [Txt (''Completed: '' @ task_name)]]) tasks)
        @ [Log INFO [Txt ''All automation work completed'']],
      outcome = Returns\<rparr>"

subsection \<open>The handlers\<close>

text \<open>\<open>startup_event\<close> and \<open>shutdown_event\<close> (lines 53 to 65).\<close>

definition startup_event :: "app_state \<Rightarrow> app_state" where
  "startup_event s =
     (let s1 = logger_info [Txt ''FASTAPISCRIPT application starting up''] s
      in logger_info [Txt ''Application started at: '', Fmt_datetime (start_time s1)] s1)"

definition shutdown_event :: "datetime \<Rightarrow> app_state \<Rightarrow> app_state" where
  "shutdown_event now s =
     (let s1 = logger_info [Txt ''FASTAPISCRIPT application shutting down''] s;
          uptime = total_seconds (now - start_time s1)
      in logger_info [Txt ''Total uptime: '', Fmt_2f uptime, Txt '' seconds''] s1)"

text \<open>\<open>GET /\<close> returns a dict; its values are strings, a datetime and a float.\<close>

datatype dict_value = Str string | Datetime datetime | Float real

definition root :: "datetime \<Rightarrow> app_state \<Rightarrow> (exc + (string \<times> dict_value) list) \<times> app_state" where
  "root now s =
     (Inr [(''message'', Str ''FASTAPISCRIPT Scheduled Runner''),
           (''status'', Str ''running''),
           (''start_time'', Datetime (start_time s)),
           (''uptime_seconds'', Float (total_seconds (now - start_time s)))], s)"

text \<open>
  \<open>GET /health\<close> reads the clock twice: once for the uptime (line 82), once for
  the timestamp of the response (line 84).
\<close>

definition health_check :: "datetime \<Rightarrow> datetime \<Rightarrow> app_state \<Rightarrow> (exc + HealthResponse) \<times> app_state" where
  "health_check now1 now2 s =
     (let uptime = total_seconds (now1 - start_time s)
      in (Inr \<lparr>HealthResponse.status = ''healthy'',
               HealthResponse.timestamp = now2,
               uptime_seconds = uptime\<rparr>, s))"

text \<open>
  \<open>POST /run-task\<close>. The handler has one suspension point, \<open>await simulate_work()\<close>;
  the code before it and the code after it each run without interruption on
  the event loop. The two halves are separate definitions, with the locals
  that live across the await (\<open>task_id\<close>, \<open>task_start\<close>) passed from one to the
  other; \<open>run_main_task\<close> is a run that nothing else interleaves with.

  The clock is read at line 92 (\<open>clock_start\<close>), at line 103 or 119 for the
  duration (\<open>clock_duration\<close>) and at line 109 or 124 for the timestamp
  (\<open>clock_timestamp\<close>).
\<close>

record run_env =
  work :: work_unit
  clock_start :: datetime
  clock_duration :: datetime
  clock_timestamp :: datetime

definition run_main_task_enter :: "datetime \<Rightarrow> app_state \<Rightarrow> (string \<times> datetime) \<times> app_state" where
  "run_main_task_enter now s =
     (let tid = ''task_'' @ str_nat (length (task_results s) + 1);
          task_start = now
      in ((tid, task_start), logger_info [Txt (''Starting task: '' @ tid)] s))"

definition run_main_task_resume ::
  "string \<times> datetime \<Rightarrow> outcome \<Rightarrow> datetime \<Rightarrow> datetime \<Rightarrow> app_state
     \<Rightarrow> (exc + TaskResult) \<times> app_state" where
  "run_main_task_resume locals out now2 now3 s =
     (case locals of (tid, task_start) \<Rightarrow>
        (case out of
           Returns \<Rightarrow>
             (let duration = total_seconds (now2 - task_start);
                  result = \<lparr>task_id = tid,
                            status = ''completed'',
                            message = ''Task completed successfully'',
                            timestamp = now3,
                            duration_seconds = duration\<rparr>;
                  s1 = s\<lparr>task_results := task_results s @ [result]\<rparr>;
                  s2 = logger_info [Txt (''Task '' @ tid @ '' completed successfully in ''),
                                    Fmt_2f duration, Txt '' seconds''] s1
              in (Inr result, s2))
         | Raises e \<Rightarrow>
             (let duration = total_seconds (now2 - task_start);
                  error_result = \<lparr>task_id = tid,
                                  status = ''failed'',
                                  message = ''Task failed: '' @ e,
                                  timestamp = now3,
                                  duration_seconds = duration\<rparr>;
                  s1 = s\<lparr>task_results := task_results s @ [error_result]\<rparr>;
                  s2 = logger_error [Txt (''Task '' @ tid @ '' failed: '' @ e)] s1
              in (Inl (HTTPException 500 (''Task failed: '' @ e)), s2))))"

definition run_main_task :: "run_env \<Rightarrow> app_state \<Rightarrow> (exc + TaskResult) \<times> app_state" where
  "run_main_task env s =
     (case run_main_task_enter (clock_start env) s of (locals, s1) \<Rightarrow>
        run_main_task_resume locals (outcome (work env))
          (clock_duration env) (clock_timestamp env) (emit (effects (work env)) s1))"

text \<open>\<open>GET /tasks\<close> and \<open>GET /tasks/{task_id}\<close>.\<close>

definition get_task_history :: "app_state \<Rightarrow> (exc + TaskResult list) \<times> app_state" where
  "get_task_history s = (Inr (task_results s), s)"

fun scan :: "TaskResult list \<Rightarrow> string \<Rightarrow> TaskResult option" where
  "scan [] tid = None"
| "scan (result # rest) tid = (if task_id result = tid then Some result else scan rest tid)"

definition get_task_result :: "string \<Rightarrow> app_state \<Rightarrow> (exc + TaskResult) \<times> app_state" where
  "get_task_result tid s =
     (case scan (task_results s) tid of
        Some result \<Rightarrow> (Inr result, s)
      | None \<Rightarrow> (Inl (HTTPException 404 ''Task not found''), s))"

text \<open>
  \<open>auto_run_task\<close> (lines 175 to 200). \<open>run_main_task\<close> is called directly; what
  it raises is caught by \<open>except Exception as e\<close>, logged, and turned into
  \<open>sys.exit(1)\<close>. The function returns \<open>None\<close> after the signal is sent.
\<close>

definition auto_run_task :: "run_env \<Rightarrow> app_state \<Rightarrow> (exc + unit) \<times> app_state" where
  "auto_run_task env s =
     (let s1 = asyncio_sleep 2 s;
          s2 = logger_info [Txt ''Auto-executing main task''] s1
      in case run_main_task env s2 of
           (Inr result, s3) \<Rightarrow>
             (let s4 = logger_info [Txt ''Main task completed, scheduling shutdown...''] s3;
                  s5 = asyncio_sleep 5 s4;
                  s6 = os_kill_getpid_SIGTERM s5
              in (Inr (), s6))
         | (Inl e, s3) \<Rightarrow>
             (let s4 = logger_error [Txt ''Auto-task execution failed: '', Fmt_exc e] s3
              in (Inl (SystemExit 1), s4)))"

subsection \<open>Operations one after another\<close>

datatype request =
    Root datetime
  | Health_check datetime datetime
  | Run_main_task run_env
  | Get_task_history
  | Get_task_result string
  | Startup_event
  | Shutdown_event datetime
  | Auto_run_task run_env

fun step :: "app_state \<Rightarrow> request \<Rightarrow> app_state" where
  "step s (Root now) = snd (root now s)"
| "step s (Health_check now1 now2) = snd (health_check now1 now2 s)"
| "step s (Run_main_task env) = snd (run_main_task env s)"
| "step s Get_task_history = snd (get_task_history s)"
| "step s (Get_task_result tid) = snd (get_task_result tid s)"
| "step s Startup_event = startup_event s"
| "step s (Shutdown_event now) = shutdown_event now s"
| "step s (Auto_run_task env) = snd (auto_run_task env s)"

definition steps :: "app_state \<Rightarrow> request list \<Rightarrow> app_state" where
  "steps = foldl step"

fun is_run :: "request \<Rightarrow> bool" where
  "is_run (Run_main_task env) = True"
| "is_run (Auto_run_task env) = True"
| "is_run req = False"

subsection \<open>Sample runs\<close>

text \<open>
  Concrete inputs on which the theorems below are evaluated: a run of the
  sample work unit (13 seconds between the two clock readings), a run whose
  work unit raises \<open>Exception("boom")\<close>, a run during which the wall clock is
  set back by five seconds, two requests handled one after the other, and two
  requests whose handlers overlap (both enter before either resumes).
\<close>

definition run_ok :: run_env where
  "run_ok = \<lparr>work = simulate_work, clock_start = 2000000,
             clock_duration = 15000000, clock_timestamp = 15000001\<rparr>"

definition run_boom :: run_env where
  "run_boom = \<lparr>work = \<lparr>effects = [], outcome = Raises ''boom''\<rparr>,
               clock_start = 20000000, clock_duration = 21000000,
               clock_timestamp = 21000002\<rparr>"

definition run_clock_set_back :: run_env where
  "run_clock_set_back = \<lparr>work = simulate_work, clock_start = 10000000,
                         clock_duration = 5000000, clock_timestamp = 5000001\<rparr>"

definition two_runs :: app_state where
  "two_runs = steps (init 0) [Run_main_task run_ok, Run_main_task run_boom]"

definition overlapping_runs :: app_state where
  "overlapping_runs =
     (case run_main_task_enter 1000000 (init 0) of (locals1, s1) \<Rightarrow>
      case run_main_task_enter 2000000 s1 of (locals2, s2) \<Rightarrow>
        snd (run_main_task_resume locals2 (Raises ''boom'') 15000000 15000001
          (snd (run_main_task_resume locals1 Returns 14000000 14000001 s2))))"

section \<open>Properties\<close>

subsection \<open>Decimal digits\<close>

lemma digit_value_digit:
  fixes d :: nat
  assumes "d < 10"
  shows "digit_value (digit d) = d"
proof -
  from assms have "d \<in> {0, 1, 2, 3, 4, 5, 6, 7, 8, 9}"
    by auto
  then show ?thesis
    by (auto simp: digit_def digit_value_def)
qed

lemma nat_of_str_snoc: "nat_of_str (cs @ [c]) = 10 * nat_of_str cs + digit_value c"
  by (simp add: nat_of_str_def)

lemma nat_of_str_str_nat: "nat_of_str (str_nat n) = n"
proof (induction n rule: str_nat.induct)
  case (1 n)
  show ?case
  proof (cases "n < 10")
    case True
    then show ?thesis
      by (simp add: str_nat.simps [of n] nat_of_str_def digit_value_digit)
  next
    case False
    with 1 have "nat_of_str (str_nat (n div 10)) = n div 10"
      by simp
    with False show ?thesis
      by (simp add: str_nat.simps [of n] nat_of_str_snoc digit_value_digit)
  qed
qed

lemma inj_str_nat: "inj str_nat"
  by (rule inj_on_inverseI [where g = nat_of_str]) (rule nat_of_str_str_nat)

lemma task_number_task_id: "task_number (''task_'' @ str_nat n) = n"
  by (simp add: task_number_def nat_of_str_str_nat)

lemma digit_in_digits:
  fixes d :: nat
  assumes "d < 10"
  shows "digit d \<in> set ''0123456789''"
proof -
  from assms have "d \<in> {0, 1, 2, 3, 4, 5, 6, 7, 8, 9}"
    by auto
  then show ?thesis
    by (auto simp: digit_def)
qed

lemma digit_not_zero:
  fixes d :: nat
  assumes "0 < d" and "d < 10"
  shows "digit d \<noteq> CHR ''0''"
proof -
  from assms have "d \<in> {1, 2, 3, 4, 5, 6, 7, 8, 9}"
    by auto
  then show ?thesis
    by (auto simp: digit_def)
qed

lemma str_nat_not_Nil: "str_nat n \<noteq> []"
  by (subst str_nat.simps) simp

lemma set_str_nat: "set (str_nat n) \<subseteq> set ''0123456789''"
proof (induction n rule: str_nat.induct)
  case (1 n)
  show ?case
  proof (cases "n < 10")
    case True
    with digit_in_digits [of n] show ?thesis
      by (subst str_nat.simps) simp
  next
    case False
    with 1 have "set (str_nat (n div 10)) \<subseteq> set ''0123456789''"
      by simp
    moreover have "digit (n mod 10) \<in> set ''0123456789''"
      by (rule digit_in_digits) simp
    ultimately show ?thesis
      using False by (subst str_nat.simps) simp
  qed
qed

lemma hd_str_nat:
  assumes "0 < n"
  shows "hd (str_nat n) \<noteq> CHR ''0''"
  using assms
proof (induction n rule: str_nat.induct)
  case (1 n)
  show ?case
  proof (cases "n < 10")
    case True
    with "1.prems" digit_not_zero [of n] show ?thesis
      by (subst str_nat.simps) simp
  next
    case False
    then have "0 < n div 10"
      by simp
    with 1 False have "hd (str_nat (n div 10)) \<noteq> CHR ''0''"
      by simp
    with False show ?thesis
      by (subst str_nat.simps) (simp add: str_nat_not_Nil)
  qed
qed

lemma str_nat_samples:
  "str_nat 1 = ''1''" "str_nat 10 = ''10''" "str_nat 123 = ''123''"
  by (simp_all add: str_nat.simps digit_def)

text \<open>
  The id built for the store length \<open>n\<close>: the prefix \<open>task_\<close>, then decimal
  digits only, no leading zero, and the digits read back as \<open>n + 1\<close>.
\<close>

lemma task_id_format:
  "take 5 (''task_'' @ str_nat (Suc n)) = ''task_''
   \<and> set (drop 5 (''task_'' @ str_nat (Suc n))) \<subseteq> set ''0123456789''
   \<and> hd (drop 5 (''task_'' @ str_nat (Suc n))) \<noteq> CHR ''0''
   \<and> nat_of_str (drop 5 (''task_'' @ str_nat (Suc n))) = Suc n"
  using set_str_nat [of "Suc n"] hd_str_nat [of "Suc n"]
  by (simp add: nat_of_str_str_nat)

subsection \<open>What each operation does to the state\<close>

lemmas effect_defs =
  emit_def logger_info_def logger_error_def asyncio_sleep_def os_kill_getpid_SIGTERM_def

lemmas run_defs =
  run_main_task_def run_main_task_enter_def run_main_task_resume_def

lemma task_results_emit [simp]: "task_results (emit evs s) = task_results s"
  by (simp add: emit_def)

lemma start_time_emit [simp]: "start_time (emit evs s) = start_time s"
  by (simp add: emit_def)

lemma events_emit [simp]: "events (emit evs s) = events s @ evs"
  by (simp add: emit_def)

lemma run_main_task_Returns:
  assumes "outcome (work env) = Returns"
  shows "run_main_task env s =
     (Inr \<lparr>task_id = ''task_'' @ str_nat (length (task_results s) + 1),
           status = ''completed'',
           message = ''Task completed successfully'',
           timestamp = clock_timestamp env,
           duration_seconds = total_seconds (clock_duration env - clock_start env)\<rparr>,
      s\<lparr>task_results := task_results s @
           [\<lparr>task_id = ''task_'' @ str_nat (length (task_results s) + 1),
             status = ''completed'',
             message = ''Task completed successfully'',
             timestamp = clock_timestamp env,
             duration_seconds = total_seconds (clock_duration env - clock_start env)\<rparr>],
         events := events s
           @ [Log INFO [Txt (''Starting task: task_'' @ str_nat (length (task_results s) + 1))]]
           @ effects (work env)
           @ [Log INFO [Txt (''Task task_'' @ str_nat (length (task_results s) + 1)
                               @ '' completed successfully in ''),
                        Fmt_2f (total_seconds (clock_duration env - clock_start env)),
                        Txt '' seconds'']]\<rparr>)"
  using assms by (simp add: run_defs effect_defs Let_def)

lemma run_main_task_Raises:
  assumes "outcome (work env) = Raises e"
  shows "run_main_task env s =
     (Inl (HTTPException 500 (''Task failed: '' @ e)),
      s\<lparr>task_results := task_results s @
           [\<lparr>task_id = ''task_'' @ str_nat (length (task_results s) + 1),
             status = ''failed'',
             message = ''Task failed: '' @ e,
             timestamp = clock_timestamp env,
             duration_seconds = total_seconds (clock_duration env - clock_start env)\<rparr>],
         events := events s
           @ [Log INFO [Txt (''Starting task: task_'' @ str_nat (length (task_results s) + 1))]]
           @ effects (work env)
           @ [Log ERROR [Txt (''Task task_'' @ str_nat (length (task_results s) + 1)
                               @ '' failed: '' @ e)]]\<rparr>)"
  using assms by (simp add: run_defs effect_defs Let_def)

lemma task_results_run_main_task:
  "task_results (snd (run_main_task env s)) =
     task_results s @
       [\<lparr>task_id = ''task_'' @ str_nat (length (task_results s) + 1),
         status = (case outcome (work env) of Returns \<Rightarrow> ''completed'' | Raises e \<Rightarrow> ''failed''),
         message = (case outcome (work env) of
                      Returns \<Rightarrow> ''Task completed successfully''
                    | Raises e \<Rightarrow> ''Task failed: '' @ e),
         timestamp = clock_timestamp env,
         duration_seconds = total_seconds (clock_duration env - clock_start env)\<rparr>]"
  by (cases "outcome (work env)") (simp_all add: run_main_task_Returns run_main_task_Raises)

lemma start_time_run_main_task: "start_time (snd (run_main_task env s)) = start_time s"
  by (cases "outcome (work env)") (simp_all add: run_main_task_Returns run_main_task_Raises)

lemma auto_run_task_Returns:
  assumes "outcome (work env) = Returns"
  shows "auto_run_task env s =
     (Inr (),
      emit [Log INFO [Txt ''Main task completed, scheduling shutdown...''],
            Sleep 5, Kill_getpid_SIGTERM]
        (snd (run_main_task env
               (emit [Sleep 2, Log INFO [Txt ''Auto-executing main task'']] s))))"
  using assms by (simp add: auto_run_task_def run_main_task_Returns effect_defs Let_def)

lemma auto_run_task_Raises:
  assumes "outcome (work env) = Raises e"
  shows "auto_run_task env s =
     (Inl (SystemExit 1),
      emit [Log ERROR [Txt ''Auto-task execution failed: '',
                       Fmt_exc (HTTPException 500 (''Task failed: '' @ e))]]
        (snd (run_main_task env
               (emit [Sleep 2, Log INFO [Txt ''Auto-executing main task'']] s))))"
  using assms by (simp add: auto_run_task_def run_main_task_Raises effect_defs Let_def)

lemma task_results_auto_run_task:
  "task_results (snd (auto_run_task env s)) = task_results (snd (run_main_task env s))"
  by (cases "outcome (work env)")
     (simp_all add: auto_run_task_Returns auto_run_task_Raises task_results_run_main_task)

lemma start_time_auto_run_task: "start_time (snd (auto_run_task env s)) = start_time s"
  by (cases "outcome (work env)")
     (simp_all add: auto_run_task_Returns auto_run_task_Raises start_time_run_main_task)

lemmas reader_defs =
  root_def health_check_def get_task_history_def get_task_result_def
  startup_event_def shutdown_event_def logger_info_def Let_def

lemma start_time_step: "start_time (step s req) = start_time s"
  by (cases req)
     (simp_all add: reader_defs start_time_auto_run_task start_time_run_main_task
        split: option.splits)

lemma start_time_steps: "start_time (steps s reqs) = start_time s"
  unfolding steps_def by (induction reqs arbitrary: s) (simp_all add: start_time_step)

lemma task_results_step_other:
  assumes "\<not> is_run req"
  shows "task_results (step s req) = task_results s"
  using assms by (cases req) (simp_all add: reader_defs split: option.splits)

lemma task_results_step_run:
  assumes "is_run req"
  shows "\<exists>r. task_results (step s req) = task_results s @ [r]
           \<and> task_id r = ''task_'' @ str_nat (length (task_results s) + 1)"
  using assms
  by (cases req) (simp_all add: task_results_auto_run_task task_results_run_main_task)

lemma steps_snoc: "steps s (reqs @ [req]) = step (steps s reqs) req"
  by (simp add: steps_def)

subsection \<open>The sample runs, evaluated\<close>

lemma str_nat_small:
  "str_nat (Suc 0) = ''1''" "str_nat (Suc (Suc 0)) = ''2''" "str_nat 2 = ''2''"
  by (simp_all add: str_nat.simps digit_def)

lemma outcome_run_ok: "outcome (work run_ok) = Returns"
  by (simp add: run_ok_def simulate_work_def)

lemma effects_run_ok:
  "effects (work run_ok) =
     [Log INFO [Txt ''Performing automation work...''],
      Log INFO [Txt ''Executing: Database cleanup''], Sleep 2,
      Log INFO [Txt ''Completed: Database cleanup''],
      Log INFO [Txt ''Executing: Data processing''], Sleep 5,
      Log INFO [Txt ''Completed: Data processing''],
      Log INFO [Txt ''Executing: Report generation''], Sleep 3,
      Log INFO [Txt ''Completed: Report generation''],
      Log INFO [Txt ''Executing: Email notifications''], Sleep 1,
      Log INFO [Txt ''Completed: Email notifications''],
      Log INFO [Txt ''Executing: File maintenance''], Sleep 2,
      Log INFO [Txt ''Completed: File maintenance''],
      Log INFO [Txt ''All automation work completed'']]"
  by (simp add: run_ok_def simulate_work_def tasks_def)

lemma duration_run_ok: "total_seconds (clock_duration run_ok - clock_start run_ok) = 13"
  by (simp add: run_ok_def total_seconds_def)

lemma outcome_run_boom: "outcome (work run_boom) = Raises ''boom''"
  by (simp add: run_boom_def)


lemma task_results_two_runs:
  "task_results two_runs =
     [\<lparr>task_id = ''task_1'', status = ''completed'', message = ''Task completed successfully'',
       timestamp = 15000001, duration_seconds = 13\<rparr>,
      \<lparr>task_id = ''task_2'', status = ''failed'', message = ''Task failed: boom'',
       timestamp = 21000002, duration_seconds = 1\<rparr>]"
  by (simp add: two_runs_def steps_def task_results_run_main_task init_def
      run_ok_def run_boom_def simulate_work_def str_nat_small total_seconds_def)

lemma task_results_overlapping_runs:
  "task_results overlapping_runs =
     [\<lparr>task_id = ''task_1'', status = ''completed'', message = ''Task completed successfully'',
       timestamp = 14000001, duration_seconds = 13\<rparr>,
      \<lparr>task_id = ''task_1'', status = ''failed'', message = ''Task failed: boom'',
       timestamp = 15000001, duration_seconds = 13\<rparr>]"
  by (simp add: overlapping_runs_def run_main_task_enter_def run_main_task_resume_def
      effect_defs init_def str_nat_small total_seconds_def Let_def)

subsection \<open>The scan of \<open>get_task_result\<close>\<close>

lemma scan_None:
  assumes "tid \<notin> task_id ` set xs"
  shows "scan xs tid = None"
  using assms by (induction xs) auto

lemma scan_first:
  assumes "task_id r \<notin> task_id ` set xs"
  shows "scan (xs @ r # ys) (task_id r) = Some r"
  using assms by (induction xs) auto

lemma scan_Some:
  assumes "tid \<in> task_id ` set xs"
  shows "\<exists>r \<in> set xs. task_id r = tid \<and> scan xs tid = Some r"
  using assms by (induction xs) auto

lemma scan_distinct:
  assumes "distinct (map task_id xs)" and "r \<in> set xs"
  shows "scan xs (task_id r) = Some r"
proof -
  from assms(2) obtain ys zs where xs: "xs = ys @ r # zs"
    by (auto dest: split_list)
  with assms(1) have "task_id r \<notin> task_id ` set ys"
    by auto
  then show ?thesis
    unfolding xs by (rule scan_first)
qed

subsection \<open>The store under operations that do not overlap\<close>

lemma task_ids_steps:
  "map task_id (task_results (steps (init t0) reqs)) =
     map (\<lambda>n. ''task_'' @ str_nat n) [1..<Suc (length (filter is_run reqs))]"
proof (induction reqs rule: rev_induct)
  case Nil
  show ?case by (simp add: steps_def init_def)
next
  case (snoc req reqs)
  let ?s = "steps (init t0) reqs"
  let ?n = "length (filter is_run reqs)"
  have "length (map task_id (task_results ?s)) = ?n"
    unfolding snoc.IH by (simp del: upt_Suc)
  then have len: "length (task_results ?s) = ?n"
    by simp
  show ?case
  proof (cases "is_run req")
    case True
    from task_results_step_run [OF True, of ?s] len obtain r where
      "task_results (step ?s req) = task_results ?s @ [r]"
      "task_id r = ''task_'' @ str_nat (?n + 1)"
      by auto
    with True snoc.IH show ?thesis
      by (simp add: steps_snoc upt_Suc_append del: upt_Suc)
  next
    case False
    with snoc.IH show ?thesis
      by (simp add: steps_snoc task_results_step_other del: upt_Suc)
  qed
qed

lemma inj_task_id_format: "inj (\<lambda>n. ''task_'' @ str_nat n)"
  using inj_str_nat by (auto simp: inj_def)

lemma distinct_task_ids_steps:
  "distinct (map task_id (task_results (steps (init t0) reqs)))"
  unfolding task_ids_steps using inj_task_id_format
  by (simp add: distinct_map inj_def inj_on_def)

lemma prefix_step: "prefix (task_results s) (task_results (step s req))"
proof (cases "is_run req")
  case True
  from task_results_step_run [OF True, of s] show ?thesis
    by auto
next
  case False
  then show ?thesis
    by (simp add: task_results_step_other)
qed

lemma prefix_resume:
  "prefix (task_results s) (task_results (snd (run_main_task_resume locals out now2 now3 s)))"
  by (cases locals; cases out) (simp_all add: run_main_task_resume_def effect_defs Let_def)

text \<open>
  C1. Start from a fresh process and perform any operations one after another,
  \<open>N\<close> of them task runs (\<open>POST /run-task\<close> or the automatic run). The store then
  holds exactly \<open>N\<close> entries; their ids are \<open>task_1\<close>, ..., \<open>task_N\<close> in the order
  of appending, so they are pairwise distinct and the numbers in them strictly
  increase. No operation removes or changes an entry: the store before an
  operation is a prefix of the store after it. The same holds for each of the
  two halves of a run around its await.
\<close>

theorem sequential_runs_store:
  "length (task_results (steps (init t0) reqs)) = length (filter is_run reqs)
   \<and> map task_id (task_results (steps (init t0) reqs)) =
       map (\<lambda>n. ''task_'' @ str_nat n) [1..<Suc (length (filter is_run reqs))]
   \<and> distinct (map task_id (task_results (steps (init t0) reqs)))
   \<and> sorted_wrt (<) (map (task_number \<circ> task_id) (task_results (steps (init t0) reqs)))
   \<and> prefix (task_results s) (task_results (step s req))
   \<and> prefix (task_results s) (task_results (snd (run_main_task_resume locals out now2 now3 s)))
   \<and> task_results (snd (run_main_task_enter now s)) = task_results s"
proof -
  let ?ids = "map task_id (task_results (steps (init t0) reqs))"
  let ?n = "length (filter is_run reqs)"
  have ids: "?ids = map (\<lambda>n. ''task_'' @ str_nat n) [1..<Suc ?n]"
    by (rule task_ids_steps)
  have "length ?ids = ?n"
    unfolding ids by (simp del: upt_Suc)
  then have len: "length (task_results (steps (init t0) reqs)) = ?n"
    by simp
  have dist: "distinct ?ids"
    by (rule distinct_task_ids_steps)
  have "map task_number ?ids = [1..<Suc ?n]"
    unfolding ids by (simp add: task_number_def nat_of_str_str_nat comp_def del: upt_Suc)
  moreover have "sorted_wrt (<) [1..<Suc ?n]"
    by (rule sorted_wrt_upt)
  ultimately have incr:
    "sorted_wrt (<) (map (task_number \<circ> task_id) (task_results (steps (init t0) reqs)))"
    by (simp flip: map_map del: upt_Suc)
  have enter: "task_results (snd (run_main_task_enter now s)) = task_results s"
    by (simp add: run_main_task_enter_def logger_info_def Let_def)
  from len ids dist incr prefix_step prefix_resume enter show ?thesis
    by blast
qed

subsection \<open>The task id\<close>

lemma task_ids_twelve_runs:
  "map task_id (task_results (steps (init 0) (replicate 12 (Run_main_task run_ok)))) =
     [''task_1'', ''task_2'', ''task_3'', ''task_4'', ''task_5'', ''task_6'',
      ''task_7'', ''task_8'', ''task_9'', ''task_10'', ''task_11'', ''task_12'']"
proof -
  have "length (filter is_run (replicate 12 (Run_main_task run_ok))) = 12"
    by simp
  then have "map task_id (task_results (steps (init 0) (replicate 12 (Run_main_task run_ok)))) =
      map (\<lambda>n. ''task_'' @ str_nat n) [1..<Suc 12]"
    by (simp only: task_ids_steps)
  also have "[1..<Suc 12] = [1, 2, 3, 4, 5, 6, 7, 8, 9, 10, 11, 12 :: nat]"
    by (simp add: upt_rec)
  finally show ?thesis
    by (simp add: str_nat.simps digit_def)
qed

text \<open>
  C2. The id is built when the handler is entered, before the work unit is
  awaited: it is \<open>task_<n>\<close> with \<open>n\<close> the length of the store at that moment
  plus one, written in decimal. On a fresh process it is \<open>task_1\<close>, on a store
  of 9 records \<open>task_10\<close>, on a store of 122 records \<open>task_123\<close>; twelve runs
  one after another take \<open>task_1\<close> to \<open>task_12\<close>. After the await the handler
  appends a record carrying the id it was entered with, whatever the store
  holds by then, on the completed and on the failed path alike. For a run that
  nothing overlaps, the one record appended has the id for the store the run
  started from: \<open>task_\<close>, then decimal digits without a leading zero that read
  back as the length plus one; it is the record returned when the work unit
  returns.
\<close>

theorem task_id_from_store_length:
  "fst (run_main_task_enter now s) = (''task_'' @ str_nat (length (task_results s) + 1), now)
   \<and> fst (run_main_task_enter now (init t0)) = (''task_1'', now)
   \<and> fst (run_main_task_enter now (s\<lparr>task_results := replicate 9 r0\<rparr>)) = (''task_10'', now)
   \<and> fst (run_main_task_enter now (s\<lparr>task_results := replicate 122 r0\<rparr>)) = (''task_123'', now)
   \<and> map task_id (task_results (steps (init 0) (replicate 12 (Run_main_task run_ok)))) =
       [''task_1'', ''task_2'', ''task_3'', ''task_4'', ''task_5'', ''task_6'',
        ''task_7'', ''task_8'', ''task_9'', ''task_10'', ''task_11'', ''task_12'']
   \<and> task_results (snd (run_main_task_resume (tid, task_start) Returns now2 now3 s')) =
       task_results s' @
         [\<lparr>task_id = tid, status = ''completed'', message = ''Task completed successfully'',
           timestamp = now3, duration_seconds = total_seconds (now2 - task_start)\<rparr>]
   \<and> task_results (snd (run_main_task_resume (tid, task_start) (Raises e) now2 now3 s')) =
       task_results s' @
         [\<lparr>task_id = tid, status = ''failed'', message = ''Task failed: '' @ e,
           timestamp = now3, duration_seconds = total_seconds (now2 - task_start)\<rparr>]
   \<and> (\<exists>r. task_results (snd (run_main_task env s)) = task_results s @ [r]
          \<and> task_id r = ''task_'' @ str_nat (length (task_results s) + 1)
          \<and> take 5 (task_id r) = ''task_''
          \<and> set (drop 5 (task_id r)) \<subseteq> set ''0123456789''
          \<and> hd (drop 5 (task_id r)) \<noteq> CHR ''0''
          \<and> nat_of_str (drop 5 (task_id r)) = length (task_results s) + 1
          \<and> fst (run_main_task env s) =
              (case outcome (work env) of
                 Returns \<Rightarrow> Inr r
               | Raises e \<Rightarrow> Inl (HTTPException 500 (''Task failed: '' @ e))))"
proof -
  have enter:
    "fst (run_main_task_enter now s) = (''task_'' @ str_nat (length (task_results s) + 1), now)"
    for s
    by (simp add: run_main_task_enter_def Let_def)
  have fresh: "fst (run_main_task_enter now (init t0)) = (''task_1'', now)"
    unfolding enter by (simp add: init_def str_nat_small)
  have ten:
    "fst (run_main_task_enter now (s\<lparr>task_results := replicate 9 r0\<rparr>)) = (''task_10'', now)"
    unfolding enter by (simp add: str_nat_samples)
  have hundred:
    "fst (run_main_task_enter now (s\<lparr>task_results := replicate 122 r0\<rparr>)) = (''task_123'', now)"
    unfolding enter by (simp add: str_nat_samples)
  have ret: "task_results (snd (run_main_task_resume (tid, task_start) Returns now2 now3 s')) =
       task_results s' @
         [\<lparr>task_id = tid, status = ''completed'', message = ''Task completed successfully'',
           timestamp = now3, duration_seconds = total_seconds (now2 - task_start)\<rparr>]"
    by (simp add: run_main_task_resume_def effect_defs Let_def)
  have rai: "task_results (snd (run_main_task_resume (tid, task_start) (Raises e) now2 now3 s')) =
       task_results s' @
         [\<lparr>task_id = tid, status = ''failed'', message = ''Task failed: '' @ e,
           timestamp = now3, duration_seconds = total_seconds (now2 - task_start)\<rparr>]"
    by (simp add: run_main_task_resume_def effect_defs Let_def)
  have run: "\<exists>r. task_results (snd (run_main_task env s)) = task_results s @ [r]
          \<and> task_id r = ''task_'' @ str_nat (length (task_results s) + 1)
          \<and> take 5 (task_id r) = ''task_''
          \<and> set (drop 5 (task_id r)) \<subseteq> set ''0123456789''
          \<and> hd (drop 5 (task_id r)) \<noteq> CHR ''0''
          \<and> nat_of_str (drop 5 (task_id r)) = length (task_results s) + 1
          \<and> fst (run_main_task env s) =
              (case outcome (work env) of
                 Returns \<Rightarrow> Inr r
               | Raises e \<Rightarrow> Inl (HTTPException 500 (''Task failed: '' @ e)))"
    using task_id_format [of "length (task_results s)"]
    by (cases "outcome (work env)") (simp_all add: run_main_task_Returns run_main_task_Raises)
  from enter fresh ten hundred task_ids_twelve_runs ret rai run show ?thesis
    by blast
qed

subsection \<open>A failing work unit\<close>

text \<open>
  C3. When the work unit raises an exception with text \<open>e\<close>, the run raises
  (an \<open>HTTPException\<close>) instead of returning, and the store grows by exactly one
  record, with status \<open>failed\<close> and message \<open>Task failed: e\<close>. The two go together:
  every run appends exactly one record, and the run raises exactly when that
  record is a failed one.
\<close>

theorem failure_recorded_and_raised:
  assumes "outcome (work env) = Raises e"
  shows "fst (run_main_task env s) = Inl (HTTPException 500 (''Task failed: '' @ e))
    \<and> task_results (snd (run_main_task env s)) =
        task_results s @
          [\<lparr>task_id = ''task_'' @ str_nat (length (task_results s) + 1),
            status = ''failed'',
            message = ''Task failed: '' @ e,
            timestamp = clock_timestamp env,
            duration_seconds = total_seconds (clock_duration env - clock_start env)\<rparr>]
    \<and> length (task_results (snd (run_main_task env' s'))) = length (task_results s') + 1
    \<and> isl (fst (run_main_task env' s')) =
        (TaskResult.status (last (task_results (snd (run_main_task env' s')))) = ''failed'')"
proof -
  have one: "length (task_results (snd (run_main_task env' s'))) = length (task_results s') + 1"
    by (simp add: task_results_run_main_task)
  have both: "isl (fst (run_main_task env' s')) =
        (TaskResult.status (last (task_results (snd (run_main_task env' s')))) = ''failed'')"
    by (cases "outcome (work env')") (simp_all add: run_main_task_Returns run_main_task_Raises)
  from assms one both show ?thesis
    by (simp add: run_main_task_Raises)
qed

text \<open>The failing sample run on a fresh process.\<close>

theorem failure_recorded_and_raised_witness:
  "outcome (work run_boom) = Raises ''boom''
   \<and> fst (run_main_task run_boom (init 0)) = Inl (HTTPException 500 ''Task failed: boom'')
   \<and> task_results (snd (run_main_task run_boom (init 0))) =
       [\<lparr>task_id = ''task_1'', status = ''failed'', message = ''Task failed: boom'',
         timestamp = 21000002, duration_seconds = 1\<rparr>]"
proof -
  have "clock_timestamp run_boom = 21000002"
    and "total_seconds (clock_duration run_boom - clock_start run_boom) = 1"
    by (simp_all add: run_boom_def total_seconds_def)
  with failure_recorded_and_raised [OF outcome_run_boom, of "init 0"] outcome_run_boom
  show ?thesis
    by (simp add: init_def str_nat_small)
qed

subsection \<open>Looking a task up\<close>

text \<open>
  C4. \<open>GET /tasks/{task_id}\<close> leaves the state as it is. For an id under which
  something was appended it returns a stored record with exactly that id; when
  the ids in the store are distinct, and so in every state reached from a fresh
  process by operations that do not overlap, looking up the id of any stored
  record returns that very record. For an id that no stored record has, it
  raises \<open>HTTPException(404, "Task not found")\<close>.
\<close>

theorem get_task_result_found_or_404:
  "(tid \<in> task_id ` set (task_results s) \<longrightarrow>
      (\<exists>r \<in> set (task_results s). task_id r = tid \<and> get_task_result tid s = (Inr r, s)))
   \<and> (distinct (map task_id (task_results s)) \<longrightarrow>
        (\<forall>r \<in> set (task_results s). get_task_result (task_id r) s = (Inr r, s)))
   \<and> (\<forall>r \<in> set (task_results (steps (init t0) reqs)).
        get_task_result (task_id r) (steps (init t0) reqs) = (Inr r, steps (init t0) reqs))
   \<and> (tid \<notin> task_id ` set (task_results s) \<longrightarrow>
        get_task_result tid s = (Inl (HTTPException 404 ''Task not found''), s))"
proof -
  have some: "\<exists>r \<in> set (task_results s). task_id r = tid \<and> get_task_result tid s = (Inr r, s)"
    if "tid \<in> task_id ` set (task_results s)"
    using scan_Some [OF that] by (auto simp: get_task_result_def)
  have found: "get_task_result (task_id r) s' = (Inr r, s')"
    if "distinct (map task_id (task_results s'))" and "r \<in> set (task_results s')" for r s'
    using that by (simp add: get_task_result_def scan_distinct)
  have missing: "get_task_result tid s = (Inl (HTTPException 404 ''Task not found''), s)"
    if "tid \<notin> task_id ` set (task_results s)"
    using that by (simp add: get_task_result_def scan_None)
  from some found [OF distinct_task_ids_steps] found missing show ?thesis
    by blast
qed

text \<open>After a completed and a failed run: both are found, \<open>task_3\<close> is not.\<close>

theorem get_task_result_found_or_404_witness:
  "get_task_result ''task_1'' two_runs =
       (Inr \<lparr>task_id = ''task_1'', status = ''completed'',
             message = ''Task completed successfully'',
             timestamp = 15000001, duration_seconds = 13\<rparr>, two_runs)
   \<and> get_task_result ''task_2'' two_runs =
       (Inr \<lparr>task_id = ''task_2'', status = ''failed'', message = ''Task failed: boom'',
             timestamp = 21000002, duration_seconds = 1\<rparr>, two_runs)
   \<and> get_task_result ''task_3'' two_runs = (Inl (HTTPException 404 ''Task not found''), two_runs)"
  using get_task_result_found_or_404
    [where tid = "''task_3''" and s = two_runs and ?t0.0 = 0
       and reqs = "[Run_main_task run_ok, Run_main_task run_boom]", folded two_runs_def]
  by (simp add: task_results_two_runs)

subsection \<open>The error response of \<open>POST /run-task\<close>\<close>

text \<open>
  C5, as the code has it. When the work unit raises an exception with text
  \<open>e\<close>, the handler raises \<open>HTTPException\<close> with status 500 whose detail is equal
  to the message of the failed record of that run; both are \<open>Task failed: e\<close>,
  so the detail ends with the text of the error.
\<close>

theorem failure_detail_is_message:
  assumes "outcome (work env) = Raises e"
  shows "fst (run_main_task env s) =
           Inl (HTTPException 500 (message (last (task_results (snd (run_main_task env s))))))
    \<and> message (last (task_results (snd (run_main_task env s)))) = ''Task failed: '' @ e
    \<and> TaskResult.status (last (task_results (snd (run_main_task env s)))) = ''failed''"
  using assms by (simp add: run_main_task_Raises)

theorem failure_detail_is_message_witness:
  "outcome (work run_boom) = Raises ''boom''
   \<and> fst (run_main_task run_boom (init 0)) = Inl (HTTPException 500 ''Task failed: boom'')
   \<and> message (last (task_results (snd (run_main_task run_boom (init 0))))) =
       ''Task failed: boom''"
  using failure_detail_is_message [OF outcome_run_boom, of "init 0"] outcome_run_boom
  by simp

text \<open>
  The detail is not \<open>Task failed: \<close> followed by the message of the record: the
  message already starts with that prefix. On the failing sample run the detail
  is \<open>Task failed: boom\<close>, not \<open>Task failed: Task failed: boom\<close>.
\<close>

theorem failure_detail_prefixed_counterexample:
  "fst (run_main_task run_boom (init 0)) \<noteq>
     Inl (HTTPException 500
           (''Task failed: ''
            @ message (last (task_results (snd (run_main_task run_boom (init 0)))))))"
  by (simp add: run_main_task_Raises [OF outcome_run_boom])

subsection \<open>The duration\<close>

text \<open>
  C6, as the code has it. The duration recorded by a run, completed or failed,
  is the difference in seconds between the clock reading taken right after the
  work unit returned or raised and the reading taken when the run started.
  It is non-negative when the later reading is not before the earlier one.
\<close>

theorem duration_is_clock_difference:
  "duration_seconds (last (task_results (snd (run_main_task env s)))) =
     total_seconds (clock_duration env - clock_start env)
   \<and> duration_seconds (last (task_results
        (snd (run_main_task_resume (tid, task_start) out now2 now3 s')))) =
       total_seconds (now2 - task_start)
   \<and> (clock_start env \<le> clock_duration env \<longrightarrow>
        0 \<le> duration_seconds (last (task_results (snd (run_main_task env s)))))"
proof -
  have "duration_seconds (last (task_results
        (snd (run_main_task_resume (tid, task_start) out now2 now3 s')))) =
       total_seconds (now2 - task_start)"
    by (cases out) (simp_all add: run_main_task_resume_def effect_defs Let_def)
  then show ?thesis
    by (simp add: task_results_run_main_task total_seconds_def)
qed

theorem duration_is_clock_difference_witness:
  "clock_start run_ok \<le> clock_duration run_ok
   \<and> duration_seconds (last (task_results (snd (run_main_task run_ok (init 0))))) = 13
   \<and> 0 \<le> duration_seconds (last (task_results (snd (run_main_task run_ok (init 0)))))"
proof -
  have "clock_start run_ok \<le> clock_duration run_ok"
    by (simp add: run_ok_def)
  with duration_is_clock_difference [of run_ok "init 0"] duration_run_ok show ?thesis
    by simp
qed

text \<open>
  \<open>datetime.now()\<close> is the wall clock. When it is set back while the work unit
  runs (here from 10 s to 5 s), the recorded duration is negative.
\<close>

theorem duration_negative_counterexample:
  "duration_seconds (last (task_results (snd (run_main_task run_clock_set_back (init 0))))) < 0"
  by (simp add: task_results_run_main_task run_clock_set_back_def total_seconds_def)

subsection \<open>The automatic run\<close>



text \<open>
  C8. The automatic run sleeps 2, runs the task once on the state so reached,
  and then either, when the run returned, sleeps 5 and sends \<open>SIGTERM\<close> to its
  own process, or, when the run raised, calls \<open>sys.exit(1)\<close> without sleeping or
  signalling. The trace lists everything it does, in order; the store grows by
  one record.
\<close>

theorem auto_run_task_sequence:
  "auto_run_task env s =
     (case outcome (work env) of
        Returns \<Rightarrow>
          (Inr (),
           emit [Log INFO [Txt ''Main task completed, scheduling shutdown...''],
                 Sleep 5, Kill_getpid_SIGTERM]
             (snd (run_main_task env
                    (emit [Sleep 2, Log INFO [Txt ''Auto-executing main task'']] s))))
      | Raises e \<Rightarrow>
          (Inl (SystemExit 1),
           emit [Log ERROR [Txt ''Auto-task execution failed: '',
                            Fmt_exc (HTTPException 500 (''Task failed: '' @ e))]]
             (snd (run_main_task env
                    (emit [Sleep 2, Log INFO [Txt ''Auto-executing main task'']] s)))))
   \<and> events (snd (auto_run_task env s)) =
       events s
       @ [Sleep 2, Log INFO [Txt ''Auto-executing main task'']]
       @ [Log INFO [Txt (''Starting task: task_'' @ str_nat (length (task_results s) + 1))]]
       @ effects (work env)
       @ (case outcome (work env) of
            Returns \<Rightarrow>
              [Log INFO [Txt (''Task task_'' @ str_nat (length (task_results s) + 1)
                               @ '' completed successfully in ''),
                         Fmt_2f (total_seconds (clock_duration env - clock_start env)),
                         Txt '' seconds''],
               Log INFO [Txt ''Main task completed, scheduling shutdown...''],
               Sleep 5,
               Kill_getpid_SIGTERM]
          | Raises e \<Rightarrow>
              [Log ERROR [Txt (''Task task_'' @ str_nat (length (task_results s) + 1)
                                @ '' failed: '' @ e)],
               Log ERROR [Txt ''Auto-task execution failed: '',
                          Fmt_exc (HTTPException 500 (''Task failed: '' @ e))]])
   \<and> length (task_results (snd (auto_run_task env s))) = length (task_results s) + 1"
  by (cases "outcome (work env)")
     (simp_all add: auto_run_task_Returns auto_run_task_Raises
        run_main_task_Returns run_main_task_Raises)

text \<open>The automatic run of the sample work unit on a fresh process.\<close>

theorem auto_run_task_sequence_witness:
  "fst (auto_run_task run_ok (init 0)) = Inr ()
   \<and> events (snd (auto_run_task run_ok (init 0))) =
       [Sleep 2,
        Log INFO [Txt ''Auto-executing main task''],
        Log INFO [Txt ''Starting task: task_1''],
        Log INFO [Txt ''Performing automation work...''],
        Log INFO [Txt ''Executing: Database cleanup''], Sleep 2,
        Log INFO [Txt ''Completed: Database cleanup''],
        Log INFO [Txt ''Executing: Data processing''], Sleep 5,
        Log INFO [Txt ''Completed: Data processing''],
        Log INFO [Txt ''Executing: Report generation''], Sleep 3,
        Log INFO [Txt ''Completed: Report generation''],
        Log INFO [Txt ''Executing: Email notifications''], Sleep 1,
        Log INFO [Txt ''Completed: Email notifications''],
        Log INFO [Txt ''Executing: File maintenance''], Sleep 2,
        Log INFO [Txt ''Completed: File maintenance''],
        Log INFO [Txt ''All automation work completed''],
        Log INFO [Txt ''Task task_1 completed successfully in '', Fmt_2f 13, Txt '' seconds''],
        Log INFO [Txt ''Main task completed, scheduling shutdown...''],
        Sleep 5,
        Kill_getpid_SIGTERM]"
proof -
  note run = auto_run_task_sequence [of run_ok "init 0"]
  from run have returned: "fst (auto_run_task run_ok (init 0)) = Inr ()"
    by (simp add: outcome_run_ok)
  from run [THEN conjunct2, THEN conjunct1] have
    "events (snd (auto_run_task run_ok (init 0))) =
       events (init 0)
       @ [Sleep 2, Log INFO [Txt ''Auto-executing main task'']]
       @ [Log INFO [Txt ''Starting task: task_1'']]
       @ effects (work run_ok)
       @ [Log INFO [Txt ''Task task_1 completed successfully in '', Fmt_2f 13, Txt '' seconds''],
          Log INFO [Txt ''Main task completed, scheduling shutdown...''],
          Sleep 5,
          Kill_getpid_SIGTERM]"
    by (simp add: outcome_run_ok duration_run_ok init_def str_nat_small)
  then have "events (snd (auto_run_task run_ok (init 0))) =
       [Sleep 2,
        Log INFO [Txt ''Auto-executing main task''],
        Log INFO [Txt ''Starting task: task_1''],
        Log INFO [Txt ''Performing automation work...''],
        Log INFO [Txt ''Executing: Database cleanup''], Sleep 2,
        Log INFO [Txt ''Completed: Database cleanup''],
        Log INFO [Txt ''Executing: Data processing''], Sleep 5,
        Log INFO [Txt ''Completed: Data processing''],
        Log INFO [Txt ''Executing: Report generation''], Sleep 3,
        Log INFO [Txt ''Completed: Report generation''],
        Log INFO [Txt ''Executing: Email notifications''], Sleep 1,
        Log INFO [Txt ''Completed: Email notifications''],
        Log INFO [Txt ''Executing: File maintenance''], Sleep 2,
        Log INFO [Txt ''Completed: File maintenance''],
        Log INFO [Txt ''All automation work completed''],
        Log INFO [Txt ''Task task_1 completed successfully in '', Fmt_2f 13, Txt '' seconds''],
        Log INFO [Txt ''Main task completed, scheduling shutdown...''],
        Sleep 5,
        Kill_getpid_SIGTERM]"
    by (simp add: effects_run_ok init_def)
  with returned show ?thesis
    by (rule conjI)
qed

subsection \<open>Health\<close>

text \<open>
  C9. \<open>GET /health\<close> always returns a response, with status \<open>healthy\<close> and with
  \<open>uptime_seconds\<close> the microseconds between \<open>start_time\<close> and the clock reading
  it takes for the uptime, divided by \<open>10\<^sup>6\<close>; it returns the state it was
  given. Two and a half seconds after a start at 5 s the uptime is 2.5, at the
  start itself it is 0. \<open>start_time\<close> is set when the module is initialised,
  and no operation, nor either half of a run, changes it.
\<close>

theorem health_check_pure:
  "health_check now1 now2 s =
     (Inr \<lparr>HealthResponse.status = ''healthy'',
           HealthResponse.timestamp = now2,
           uptime_seconds = real_of_int (now1 - start_time s) / 1000000\<rparr>, s)
   \<and> health_check 7500000 7500001 (init 5000000) =
     (Inr \<lparr>HealthResponse.status = ''healthy'',
           HealthResponse.timestamp = 7500001,
           uptime_seconds = 5 / 2\<rparr>, init 5000000)
   \<and> health_check 5000000 5000003 (init 5000000) =
     (Inr \<lparr>HealthResponse.status = ''healthy'',
           HealthResponse.timestamp = 5000003,
           uptime_seconds = 0\<rparr>, init 5000000)
   \<and> start_time (init t0) = t0
   \<and> start_time (steps (init t0) reqs) = t0
   \<and> start_time (step s req) = start_time s
   \<and> start_time (snd (run_main_task_enter now s)) = start_time s
   \<and> start_time (snd (run_main_task_resume locals out now2 now3 s)) = start_time s"
proof -
  have "start_time (snd (run_main_task_resume locals out now2 now3 s)) = start_time s"
    by (cases locals; cases out) (simp_all add: run_main_task_resume_def effect_defs Let_def)
  then show ?thesis
    by (simp add: health_check_def total_seconds_def start_time_steps start_time_step init_def
        run_main_task_enter_def logger_info_def Let_def)
qed

subsection \<open>Duplicate ids\<close>

text \<open>
  C10. In any store, also one in which several records have the same id,
  \<open>GET /tasks/{task_id}\<close> returns the first record with that id in the order of
  appending, and leaves the state as it is.
\<close>

theorem get_task_result_earliest_match:
  assumes "task_results s = xs @ r # ys"
    and "task_id r \<notin> task_id ` set xs"
  shows "get_task_result (task_id r) s = (Inr r, s)"
  using assms by (simp add: get_task_result_def scan_first)

text \<open>
  Two overlapping requests on a fresh process both take the id \<open>task_1\<close>; the
  lookup returns the record of the one that finished first.
\<close>

theorem get_task_result_earliest_match_witness:
  "task_results overlapping_runs =
     [\<lparr>task_id = ''task_1'', status = ''completed'', message = ''Task completed successfully'',
       timestamp = 14000001, duration_seconds = 13\<rparr>,
      \<lparr>task_id = ''task_1'', status = ''failed'', message = ''Task failed: boom'',
       timestamp = 15000001, duration_seconds = 13\<rparr>]
   \<and> get_task_result ''task_1'' overlapping_runs =
      (Inr \<lparr>task_id = ''task_1'', status = ''completed'',
            message = ''Task completed successfully'',
            timestamp = 14000001, duration_seconds = 13\<rparr>, overlapping_runs)"
  using get_task_result_earliest_match
    [of overlapping_runs "[]"
        "\<lparr>task_id = ''task_1'', status = ''completed'',
          message = ''Task completed successfully'',
          timestamp = 14000001, duration_seconds = 13\<rparr>"
        "[\<lparr>task_id = ''task_1'', status = ''failed'', message = ''Task failed: boom'',
           timestamp = 15000001, duration_seconds = 13\<rparr>]"]
  by (simp add: task_results_overlapping_runs)

end
